theory Spec2Isabelle
  imports Complex_Main "HOL-Library.Multiset"
begin

section \<open>Common Python values\<close>

text \<open>
  Exceptions raised by the modelled code are values. An \<open>AssertionError\<close> carries the
  message of the failed \<^verbatim>\<open>assert\<close> (empty when the assertion has none), a
  \<open>KeyError\<close> the missing key.
\<close>

datatype error =
    AssertionError string
  | TypeError
  | ValueError
  | KeyError string
  | IndexError
  | AxisError
  | RuntimeError
  | FileNotFoundError

section \<open>The model adapter (\<^verbatim>\<open>models/implementations/pytorch.py\<close>)\<close>

subsection \<open>Module trees\<close>

text \<open>
  A network module has a class name and an ordered mapping \<^verbatim>\<open>_modules\<close> from
  child names to child modules. Hooks are attached to module objects, so every module
  also carries the identity of its object (\<open>ident\<close>).
\<close>

datatype module = Module (ident: nat) (class_name: string) (modules: "(string \<times> module) list")

definition SUBMODULE_SEPARATOR :: string where
  "SUBMODULE_SEPARATOR = ''.''"

text \<open>
  \<^verbatim>\<open>str.split(sep)\<close> for a one-character separator: the pieces between the
  separators, empty pieces included, so that the result is never empty.
\<close>

fun split_sep :: "char \<Rightarrow> string \<Rightarrow> string list" where
  "split_sep sep [] = [[]]"
| "split_sep sep (c # cs) =
     (if c = sep then [] # split_sep sep cs
      else (case split_sep sep cs of
              [] \<Rightarrow> [[c]]
            | p # ps \<Rightarrow> (c # p) # ps))"

subsection \<open>\<^verbatim>\<open>walk_pytorch_module\<close>\<close>

text \<open>
  \<^verbatim>\<open>
  def walk_pytorch_module(module, layer_name):
      for part in layer_name.split(SUBMODULE_SEPARATOR):
          module = module._modules.get(part)
          assert module is not None, "No submodule found for layer {}, at part {}".format(layer_name, part)
      return module
  \<close>
\<close>

definition no_submodule_message :: "string \<Rightarrow> string \<Rightarrow> string" where
  "no_submodule_message layer_name part =
     ''No submodule found for layer '' @ layer_name @ '', at part '' @ part"

fun walk_parts :: "module \<Rightarrow> string \<Rightarrow> string list \<Rightarrow> error + module" where
  "walk_parts mdl layer_name [] = Inr mdl"
| "walk_parts mdl layer_name (part # parts) =
     (case map_of (modules mdl) part of
        None \<Rightarrow> Inl (AssertionError (no_submodule_message layer_name part))
      | Some sub \<Rightarrow> walk_parts sub layer_name parts)"

definition walk_pytorch_module :: "module \<Rightarrow> string \<Rightarrow> error + module" where
  "walk_pytorch_module mdl layer_name =
     walk_parts mdl layer_name (split_sep (CHR ''.'') layer_name)"

text \<open>
  The path of a layer read on its own: following the child names one after the other
  from a module, \<open>None\<close> as soon as one of them names no child.
\<close>

fun descend :: "module \<Rightarrow> string list \<Rightarrow> module option" where
  "descend m [] = Some m"
| "descend m (p # ps) = (case map_of (modules m) p of None \<Rightarrow> None | Some sub \<Rightarrow> descend sub ps)"

subsection \<open>\<^verbatim>\<open>_layers\<close> and \<^verbatim>\<open>layers\<close>\<close>

text \<open>
  \<^verbatim>\<open>
  def _layers(cls, module, name_prefix=None):
      if not module._modules:
          module_name = name_prefix + SUBMODULE_SEPARATOR + module.__class__.__name__
          yield module_name, module
          return
      for submodule_name, submodule in module._modules.items():
          submodule_prefix = (name_prefix + SUBMODULE_SEPARATOR + submodule_name) if name_prefix is not None \
              else submodule_name
          yield from cls._layers(submodule, name_prefix=submodule_prefix)
  \<close>
  The generator is modelled by what it yields, in order, and the exception that ends
  it, if any. \<open>None + str\<close> is a \<open>TypeError\<close>.
\<close>

fun layers_impl :: "module \<Rightarrow> string option \<Rightarrow> (string \<times> module) list \<times> error option"
  and layers_loop :: "(string \<times> module) list \<Rightarrow> string option \<Rightarrow> (string \<times> module) list \<times> error option"
where
  "layers_impl (Module i c ms) name_prefix =
     (if ms = [] then
        (case name_prefix of
           None \<Rightarrow> ([], Some TypeError)
         | Some p \<Rightarrow> ([(p @ SUBMODULE_SEPARATOR @ c, Module i c ms)], None))
      else layers_loop ms name_prefix)"
| "layers_loop [] name_prefix = ([], None)"
| "layers_loop ((submodule_name, submodule) # rest) name_prefix =
     (let submodule_prefix =
            (case name_prefix of
               Some p \<Rightarrow> p @ SUBMODULE_SEPARATOR @ submodule_name
             | None \<Rightarrow> submodule_name)
      in case layers_impl submodule (Some submodule_prefix) of
           (ys, Some e) \<Rightarrow> (ys, Some e)
         | (ys, None) \<Rightarrow> (case layers_loop rest name_prefix of (zs, e) \<Rightarrow> (ys @ zs, e)))"

definition layers :: "module \<Rightarrow> (string \<times> module) list \<times> error option" where
  "layers model = layers_impl model None"

text \<open>
  The traversal as the specification words it: the leaves of the submodule tree in
  depth-first order, each with the list of child names leading to it from the root, and
  the name built from that path.
\<close>

fun leaf_paths :: "module \<Rightarrow> (string list \<times> module) list"
  and leaf_paths_children :: "(string \<times> module) list \<Rightarrow> (string list \<times> module) list"
where
  "leaf_paths (Module i c ms) =
     (if ms = [] then [([], Module i c ms)] else leaf_paths_children ms)"
| "leaf_paths_children [] = []"
| "leaf_paths_children ((n, sub) # rest) =
     map (\<lambda>(path, leaf). (n # path, leaf)) (leaf_paths sub) @ leaf_paths_children rest"

fun dot_join :: "string list \<Rightarrow> string" where
  "dot_join [] = []"
| "dot_join [p] = p"
| "dot_join (p # q # ps) = p @ ''.'' @ dot_join (q # ps)"

definition leaf_name :: "string list \<times> module \<Rightarrow> string \<times> module" where
  "leaf_name pl = (dot_join (fst pl) @ ''.'' @ class_name (snd pl), snd pl)"

text \<open>The same name below a prefix, as the recursion builds it.\<close>

definition qual_name :: "string option \<Rightarrow> string list \<times> module \<Rightarrow> string \<times> module" where
  "qual_name prefix pl =
     (dot_join ((case prefix of None \<Rightarrow> [] | Some p \<Rightarrow> [p]) @ fst pl) @ ''.'' @ class_name (snd pl),
      snd pl)"

text \<open>
  \<^verbatim>\<open>_modules\<close> is an ordered dictionary: the child names of a module are distinct,
  at every level of the tree.
\<close>

fun wf_module :: "module \<Rightarrow> bool" where
  "wf_module (Module i c ms) = (distinct (map fst ms) \<and> (\<forall>x \<in> set ms. wf_module (snd x)))"

subsection \<open>\<^verbatim>\<open>_get_activations\<close>\<close>

text \<open>
  Arrays and tensors are a shape and the numbers in row-major order; the numbers are
  reals, since only shapes and the identity of the captured outputs are observed.
\<close>

record ndarray =
  shape :: "nat list"
  elems :: "real list"

text \<open>
  \<^verbatim>\<open>torch.stack\<close> raises on an empty list and on tensors of different shapes;
  otherwise the result has the number of tensors as its leading dimension.
\<close>

fun torch_stack :: "ndarray list \<Rightarrow> error + ndarray" where
  "torch_stack [] = Inl RuntimeError"
| "torch_stack (a # as) =
     (if list_all (\<lambda>b. shape b = shape a) as
      then Inr \<lparr>shape = length (a # as) # shape a, elems = concat (map elems (a # as))\<rparr>
      else Inl RuntimeError)"

text \<open>
  \<^verbatim>\<open>layer_results\<close> is an ordered dictionary: storing under a key that is present
  replaces its value in place, storing under a new key appends.
\<close>

fun dict_set :: "'k \<Rightarrow> 'v \<Rightarrow> ('k \<times> 'v) list \<Rightarrow> ('k \<times> 'v) list" where
  "dict_set k v [] = [(k, v)]"
| "dict_set k v ((k', v') # rest) =
     (if k' = k then (k, v) # rest else (k', v') # dict_set k v rest)"

text \<open>
  \<^verbatim>\<open>
  for layer_name in layer_names:
      layer = walk_pytorch_module(self._model, layer_name)
      layer.register_forward_hook(
          lambda _layer, _input, output, name=layer_name: store_layer_output(name, output))
  \<close>
  The hooks of this call are kept per module object, as the names they store under, in
  the order of registration. Hooks left by earlier calls store into the mappings of those
  calls and are not part of the result.
\<close>

fun register_hooks :: "module \<Rightarrow> string list \<Rightarrow> (nat \<Rightarrow> string list) \<Rightarrow> error + (nat \<Rightarrow> string list)" where
  "register_hooks model [] hooks = Inr hooks"
| "register_hooks model (layer_name # rest) hooks =
     (case walk_pytorch_module model layer_name of
        Inl e \<Rightarrow> Inl e
      | Inr layer \<Rightarrow>
          register_hooks model rest (hooks(ident layer := hooks (ident layer) @ [layer_name])))"

text \<open>
  The inference pass \<^verbatim>\<open>self._model(images)\<close> belongs to the network library. It is a
  parameter \<open>forward\<close>: the pass in evaluation mode, as the sequence of submodule
  invocations it makes, each with the identity of the invoked module and its output
  tensor, in the order in which the invocations complete, or the exception it raises.
  After each invocation the hooks of that module run:
  \<^verbatim>\<open>layer_results[layer_name] = output.cpu().data.numpy()\<close>.
\<close>

definition store_layer_output ::
  "string \<Rightarrow> ndarray \<Rightarrow> (string \<times> ndarray) list \<Rightarrow> (string \<times> ndarray) list" where
  "store_layer_output layer_name output layer_results = dict_set layer_name output layer_results"

fun run_hooks ::
  "(nat \<Rightarrow> string list) \<Rightarrow> (nat \<times> ndarray) list \<Rightarrow> (string \<times> ndarray) list \<Rightarrow> (string \<times> ndarray) list" where
  "run_hooks hooks [] layer_results = layer_results"
| "run_hooks hooks ((i, output) # events) layer_results =
     run_hooks hooks events
       (fold (\<lambda>name. store_layer_output name output) (hooks i) layer_results)"

definition get_activations ::
  "(ndarray \<Rightarrow> error + (nat \<times> ndarray) list) \<Rightarrow> module \<Rightarrow> ndarray list \<Rightarrow> string list
     \<Rightarrow> error + (string \<times> ndarray) list" where
  "get_activations forward model images layer_names =
     (case torch_stack images of
        Inl e \<Rightarrow> Inl e
      | Inr batch \<Rightarrow>
          (case register_hooks model layer_names (\<lambda>_. []) of
             Inl e \<Rightarrow> Inl e
           | Inr hooks \<Rightarrow>
               (case forward batch of
                  Inl e \<Rightarrow> Inl e
                | Inr events \<Rightarrow> Inr (run_hooks hooks events []))))"



subsection \<open>\<^verbatim>\<open>_load_image\<close>\<close>

text \<open>
  An image of the imaging library: its mode, its size (width, height) and its pixels,
  a list of rows, each pixel the list of its band values.
\<close>

record image =
  mode :: string
  im_size :: "nat \<times> nat"
  pixels :: "nat list list list"

definition upper :: "string \<Rightarrow> string" where
  "upper s = map (\<lambda>c. let n = (of_char c :: nat) in
                       if 97 \<le> n \<and> n \<le> 122 then char_of (n - 32) else c) s"

definition mode_bands :: "string \<Rightarrow> nat" where
  "mode_bands m =
     (if m \<in> set [''RGB'', ''YCbCr'', ''LAB'', ''HSV''] then 3
      else if m \<in> set [''RGBA'', ''CMYK'', ''RGBX''] then 4
      else if m \<in> set [''LA'', ''PA''] then 2
      else 1)"

text \<open>\<^verbatim>\<open>Image.new(mode, size)\<close>: the colour defaults to 0, a black image.\<close>

definition image_new :: "string \<Rightarrow> nat \<times> nat \<Rightarrow> image" where
  "image_new m sz =
     \<lparr>mode = m, im_size = sz,
      pixels = replicate (snd sz) (replicate (fst sz) (replicate (mode_bands m) 0))\<rparr>"

text \<open>
  \<^verbatim>\<open>self.paste(im)\<close> with no box: \<open>im\<close> is written over \<open>self\<close> from the upper left
  corner, converted to the mode of \<open>self\<close> when the modes differ. The conversion between
  two different modes is the library's, a parameter \<open>convert\<close> (source mode, target mode,
  pixel).
\<close>

definition overlay :: "'a list \<Rightarrow> 'a list \<Rightarrow> 'a list" where
  "overlay dst src = take (length dst) src @ drop (length src) dst"

definition paste :: "(string \<Rightarrow> string \<Rightarrow> nat list \<Rightarrow> nat list) \<Rightarrow> image \<Rightarrow> image \<Rightarrow> image" where
  "paste convert self im =
     (let src = (if mode im = mode self then pixels im
                 else map (map (convert (mode im) (mode self))) (pixels im))
      in self\<lparr>pixels :=
                 map (\<lambda>(d, s). overlay d s) (zip (pixels self) src)
                   @ drop (length src) (pixels self)\<rparr>)"

definition copy :: "image \<Rightarrow> image" where
  "copy im = im"

text \<open>
  \<^verbatim>\<open>
  def _load_image(self, image_filepath):
      with Image.open(image_filepath) as image:
          if image.mode.upper() != 'L':  # not binary
              return image.copy()
          else:  # make sure potential binary images are in RGB
              image = Image.new("RGB", image.size)
              image.paste(image)
              return image
  \<close>
  The name \<^verbatim>\<open>image\<close> (\<open>img\<close> below) is bound again by the assignment, so the
  image pasted is the new one.
\<close>

definition load_image ::
  "(string \<Rightarrow> string \<Rightarrow> nat list \<Rightarrow> nat list) \<Rightarrow> (string \<rightharpoonup> image) \<Rightarrow> string \<Rightarrow> error + image" where
  "load_image convert files image_filepath =
     (case files image_filepath of
        None \<Rightarrow> Inl FileNotFoundError
      | Some img \<Rightarrow>
          if upper (mode img) \<noteq> ''L'' then Inr (copy img)
          else (let img = image_new ''RGB'' (im_size img);
                    img = paste convert img img
                in Inr img))"

text \<open>
  What the conversion of a grayscale image to three channels keeps: every pixel with its
  gray value in each of the three bands.
\<close>

definition gray_to_rgb :: "image \<Rightarrow> image" where
  "gray_to_rgb im = im\<lparr>mode := ''RGB'', pixels := map (map (\<lambda>px. concat (replicate 3 px))) (pixels im)\<rparr>"

section \<open>Reporting (\<^verbatim>\<open>plot/global_score.py\<close>)\<close>

text \<open>
  A floating-point number is \<open>NaN\<close> or a finite value. The finite values are reals: the
  code below only compares them, counts them, multiplies by 100 and averages one value.
\<close>

datatype pyfloat = NaN | Fin real

subsection \<open>The convex trend of \<^verbatim>\<open>_plot_score\<close>\<close>

text \<open>
  \<^verbatim>\<open>
  y_fit = []
  curr_x, curr_y = 0, -99999
  for _x, _y in zip(x, y):
      if _x != curr_x:
          curr_x = _x
          curr_y = _y
      elif _y > curr_y:
          curr_y = _y
      y_fit.append(curr_y)
  \<close>
\<close>

fun convex_loop :: "real \<Rightarrow> real \<Rightarrow> (real \<times> real) list \<Rightarrow> real list" where
  "convex_loop curr_x curr_y [] = []"
| "convex_loop curr_x curr_y ((x, y) # rest) =
     (let (curr_x, curr_y) =
            (if x \<noteq> curr_x then (x, y)
             else if y > curr_y then (curr_x, y)
             else (curr_x, curr_y))
      in curr_y # convex_loop curr_x curr_y rest)"

text \<open>
  \<^verbatim>\<open>
  ax.scatter(x, y, ...)
  if fit_method:
      indices = np.argsort(x)
      x, y = np.array(x)[indices], np.array(y)[indices]
      ...
      elif fit_method == 'convex':
  \<close>
  The scatter plot raises when \<open>x\<close> and \<open>y\<close> differ in length. \<^verbatim>\<open>np.argsort\<close>
  is the array library's, a parameter \<open>argsort\<close>: the indices that sort \<open>x\<close>. Its
  default algorithm is not stable, so the order it gives to equal values is not fixed
  here. Indexing an array with a list of indices raises on an index out of range.
\<close>

definition convex_fit :: "(real list \<Rightarrow> nat list) \<Rightarrow> real list \<Rightarrow> real list \<Rightarrow> error + real list" where
  "convex_fit argsort x y =
     (if length x \<noteq> length y then Inl ValueError
      else (let indices = argsort x
            in if \<not> list_all (\<lambda>i. i < length x) indices then Inl IndexError
               else Inr (convex_loop 0 (- 99999)
                           (zip (map (\<lambda>i. x ! i) indices) (map (\<lambda>i. y ! i) indices)))))"

subsection \<open>Model metadata\<close>

text \<open>
  The rows of \<^verbatim>\<open>models.csv\<close> (the file is data, a parameter of the model), with the
  columns read by \<^verbatim>\<open>prepare_data\<close>.
\<close>

record meta_row =
  meta_model :: string
  top1 :: pyfloat
  behav_r :: pyfloat
  meta_link :: string
  meta_bibtex :: string

text \<open>A dictionary comprehension over rows: a later row replaces an earlier one.\<close>

definition dict_of :: "('k \<times> 'v) list \<Rightarrow> 'k \<rightharpoonup> 'v" where
  "dict_of kvs = map_of (rev kvs)"

definition model_behavior :: "meta_row list \<Rightarrow> string \<rightharpoonup> pyfloat" where
  "model_behavior model_meta = dict_of (map (\<lambda>row. (meta_model row, behav_r row)) model_meta)"

definition model_performance :: "meta_row list \<Rightarrow> string \<rightharpoonup> pyfloat" where
  "model_performance model_meta =
     (dict_of (map (\<lambda>row. (meta_model row, top1 row)) model_meta))
       (''alexnet'' \<mapsto> Fin (1 - 0.4233), ''squeezenet'' \<mapsto> Fin 0.575)"

subsection \<open>\<^verbatim>\<open>parse_neural_data\<close>\<close>

text \<open>
  The table of neural scores has a \<open>model\<close> column and the neural columns, one value
  \<open>'a\<close> per row for all of them. It is read from \<^verbatim>\<open>neural.csv\<close> when that file
  exists; otherwise every model is scored (\<open>score_physiology\<close>, a parameter, which may
  raise), and the table is written to the file.
\<close>

record 'a env =
  model_meta :: "meta_row list"
  neural_csv :: "(string \<times> 'a) list option"
  score_physiology :: "string \<Rightarrow> error + 'a"

fun score_models :: "(string \<Rightarrow> error + 'a) \<Rightarrow> string list \<Rightarrow> error + 'a list" where
  "score_models score [] = Inr []"
| "score_models score (m # ms) =
     (case score m of
        Inl e \<Rightarrow> Inl e
      | Inr v \<Rightarrow> (case score_models score ms of Inl e \<Rightarrow> Inl e | Inr vs \<Rightarrow> Inr (v # vs)))"

definition parse_neural_data :: "'a env \<Rightarrow> string list \<Rightarrow> (error + (string \<times> 'a) list) \<times> 'a env" where
  "parse_neural_data env models =
     (case neural_csv env of
        Some table \<Rightarrow> (Inr table, env)
      | None \<Rightarrow>
          (case score_models (score_physiology env) models of
             Inl e \<Rightarrow> (Inl e, env)
           | Inr scores \<Rightarrow>
               (let table = zip models scores
                in (Inr table, env\<lparr>neural_csv := Some table\<rparr>))))"

subsection \<open>\<^verbatim>\<open>prepare_data\<close>\<close>

text \<open>
  \<^verbatim>\<open>
  data['i2n'] = [model_behavior[model] if model in model_behavior else np.nan for model in data['model'] if
                 model != 'cornet']
  \<close>
  The comprehension filters; assigning a list to a column raises when the list has not
  one value per row.
\<close>

definition behavior_or_nan :: "(string \<rightharpoonup> pyfloat) \<Rightarrow> string \<Rightarrow> pyfloat" where
  "behavior_or_nan behavior m = (case behavior m of Some v \<Rightarrow> v | None \<Rightarrow> NaN)"

definition i2n_values :: "(string \<rightharpoonup> pyfloat) \<Rightarrow> string list \<Rightarrow> pyfloat list" where
  "i2n_values behavior ms = map (behavior_or_nan behavior) (filter (\<lambda>m. m \<noteq> ''cornet'') ms)"

definition assign_i2n ::
  "(string \<rightharpoonup> pyfloat) \<Rightarrow> (string \<times> 'a) list \<Rightarrow> error + ((string \<times> 'a) \<times> pyfloat) list" where
  "assign_i2n behavior table =
     (let vals = i2n_values behavior (map fst table)
      in if length vals \<noteq> length table then Inl ValueError else Inr (zip table vals))"

text \<open>
  \<^verbatim>\<open>data['performance'] = [100 * model_performance[model] for model in data['model']]\<close>
\<close>

fun fmul :: "pyfloat \<Rightarrow> pyfloat \<Rightarrow> pyfloat" where
  "fmul (Fin a) (Fin b) = Fin (a * b)"
| "fmul _ _ = NaN"

fun performance_values :: "(string \<rightharpoonup> pyfloat) \<Rightarrow> string list \<Rightarrow> error + pyfloat list" where
  "performance_values perf [] = Inr []"
| "performance_values perf (m # ms) =
     (case perf m of
        None \<Rightarrow> Inl (KeyError m)
      | Some p \<Rightarrow>
          (case performance_values perf ms of
             Inl e \<Rightarrow> Inl e
           | Inr ps \<Rightarrow> Inr (fmul (Fin 100) p # ps)))"

text \<open>
  \<^verbatim>\<open>
  global_scores = [[  # data['neural-mean'][data['model'] == model].values[0],
      data['i2n'][data['model'] == model].values[0]]
      for model in data['model']]
  data['global'] = np.mean(global_scores, axis=1)
  \<close>
  The value taken for a model is that of the first row carrying the model's name. The
  mean along axis 1 raises on an empty list, which has no axis 1.
\<close>

fun first_i2n :: "((string \<times> 'a) \<times> pyfloat) list \<Rightarrow> string \<Rightarrow> error + pyfloat" where
  "first_i2n [] m = Inl IndexError"
| "first_i2n (((m', n), v) # rest) m = (if m' = m then Inr v else first_i2n rest m)"

fun global_scores :: "((string \<times> 'a) \<times> pyfloat) list \<Rightarrow> string list \<Rightarrow> error + pyfloat list list" where
  "global_scores data [] = Inr []"
| "global_scores data (m # ms) =
     (case first_i2n data m of
        Inl e \<Rightarrow> Inl e
      | Inr v \<Rightarrow> (case global_scores data ms of Inl e \<Rightarrow> Inl e | Inr gs \<Rightarrow> Inr ([v] # gs)))"

fun finite_values :: "pyfloat list \<Rightarrow> real list" where
  "finite_values [] = []"
| "finite_values (NaN # vs) = finite_values vs"
| "finite_values (Fin a # vs) = a # finite_values vs"

definition mean_row :: "pyfloat list \<Rightarrow> pyfloat" where
  "mean_row vs =
     (if NaN \<in> set vs \<or> vs = [] then NaN
      else Fin (sum_list (finite_values vs) / real (length vs)))"

definition np_mean_axis1 :: "pyfloat list list \<Rightarrow> error + pyfloat list" where
  "np_mean_axis1 rows = (if rows = [] then Inl AxisError else Inr (map mean_row rows))"

text \<open>The table with its derived columns, and the columns added later.\<close>

record 'a scored =
  model :: string
  neural :: 'a
  i2n :: pyfloat
  performance :: pyfloat
  global :: pyfloat

record 'a ranked = "'a scored" +
  rank :: pyfloat

record 'a row = "'a ranked" +
  link :: string
  bibtex :: string

text \<open>
  \<^verbatim>\<open>data['rank'] = data['global'].rank(ascending=False)\<close>: the ranking of the table
  library with its defaults. Values are ranked from the largest down, equal values share
  the average of the positions they occupy, \<open>NaN\<close> is left out and keeps \<open>NaN\<close>.
\<close>

definition average_rank :: "pyfloat list \<Rightarrow> real \<Rightarrow> real" where
  "average_rank col a =
     real (length (filter (\<lambda>b. a < b) (finite_values col)))
     + (real (length (filter (\<lambda>b. b = a) (finite_values col))) + 1) / 2"

definition rank_desc :: "pyfloat list \<Rightarrow> pyfloat list" where
  "rank_desc col = map (\<lambda>v. case v of NaN \<Rightarrow> NaN | Fin a \<Rightarrow> Fin (average_rank col a)) col"

definition assign_rank :: "'a scored list \<Rightarrow> 'a ranked list" where
  "assign_rank data =
     map (\<lambda>(r, k). \<lparr>model = model r, neural = neural r, i2n = i2n r,
                     performance = performance r, global = global r, rank = k\<rparr>)
         (zip data (rank_desc (map global data)))"

text \<open>
  \<^verbatim>\<open>data = data.merge(model_meta[['model', 'link', 'bibtex']], on='model')\<close>: an inner
  join in the order of the left rows.
\<close>

definition merge_meta :: "'a ranked list \<Rightarrow> meta_row list \<Rightarrow> 'a row list" where
  "merge_meta data meta =
     concat (map (\<lambda>r. map (\<lambda>mr. \<lparr>model = model r, neural = neural r, i2n = i2n r,
                                     performance = performance r, global = global r,
                                     rank = rank r,
                                     link = meta_link mr, bibtex = meta_bibtex mr\<rparr>)
                         (filter (\<lambda>mr. meta_model mr = model r) meta))
                 data)"

text \<open>
  \<^verbatim>\<open>_create_fixture\<close> and \<^verbatim>\<open>_create_latex_table\<close> write files from the table
  and leave it as it is; for the result of \<^verbatim>\<open>prepare_data\<close> they count by the
  exception they may raise, the parameter \<open>report\<close>.
\<close>

definition prepare_data ::
  "('a row list \<Rightarrow> error option) \<Rightarrow> 'a env \<Rightarrow> string list \<Rightarrow> (error + 'a row list) \<times> 'a env" where
  "prepare_data report env models =
     (case parse_neural_data env models of
        (Inl e, env') \<Rightarrow> (Inl e, env')
      | (Inr table, env') \<Rightarrow>
          (case assign_i2n (model_behavior (model_meta env')) table of
             Inl e \<Rightarrow> (Inl e, env')
           | Inr data \<Rightarrow>
               (case performance_values (model_performance (model_meta env')) (map fst table) of
                  Inl e \<Rightarrow> (Inl e, env')
                | Inr perf \<Rightarrow>
                    (case global_scores data (map fst table) of
                       Inl e \<Rightarrow> (Inl e, env')
                     | Inr gs \<Rightarrow>
                         (case np_mean_axis1 gs of
                            Inl e \<Rightarrow> (Inl e, env')
                          | Inr glob \<Rightarrow>
                              (let data = map (\<lambda>(((m, n), v), p, g).
                                                 \<lparr>model = m, neural = n, i2n = v, performance = p, global = g\<rparr>)
                                              (zip data (zip perf glob));
                                   data = filter (\<lambda>r. model r \<in> set models) data;
                                   data = assign_rank data;
                                   data = merge_meta data (model_meta env')
                               in (case report data of
                                     Some e \<Rightarrow> (Inl e, env')
                                   | None \<Rightarrow> (Inr data, env'))))))))"

subsection \<open>\<^verbatim>\<open>parse_bib\<close>\<close>

text \<open>
  \<^verbatim>\<open>
  def parse_bib(bibtex_str):
      bib_parser = bibtex.Parser()
      entry = bib_parser.parse_string(bibtex_str).entries
      assert len(entry) == 1
      entry = entry.values()[0]
      return entry
  \<close>
  The BibTeX parser is the library's, a parameter \<open>parse_string\<close>: the entries of the
  parsed string as an ordered mapping from keys to entries, or the parser's exception.
  What \<^verbatim>\<open>values()\<close> of that mapping returns is the library's too, a parameter
  \<open>values_of\<close>: a list of the values, or a view of them. A list is indexed by
  \<^verbatim>\<open>[0]\<close>; a view supports no indexing, and \<^verbatim>\<open>[0]\<close> on it is a type error.
\<close>

datatype 'e dict_values = ValuesList "'e list" | ValuesView "'e list"

definition values_list :: "(string \<times> 'e) list \<Rightarrow> 'e dict_values" where
  "values_list entries = ValuesList (map snd entries)"

definition values_view :: "(string \<times> 'e) list \<Rightarrow> 'e dict_values" where
  "values_view entries = ValuesView (map snd entries)"

fun getitem0 :: "'e dict_values \<Rightarrow> error + 'e" where
  "getitem0 (ValuesList []) = Inl IndexError"
| "getitem0 (ValuesList (e # es)) = Inr e"
| "getitem0 (ValuesView es) = Inl TypeError"

definition parse_bib ::
  "(string \<Rightarrow> error + (string \<times> 'e) list) \<Rightarrow> ((string \<times> 'e) list \<Rightarrow> 'e dict_values) \<Rightarrow> string
     \<Rightarrow> error + 'e" where
  "parse_bib parse_string values_of bibtex_str =
     (case parse_string bibtex_str of
        Inl e \<Rightarrow> Inl e
      | Inr entry \<Rightarrow>
          if length entry \<noteq> 1 then Inl (AssertionError [])
          else getitem0 (values_of entry))"

section \<open>Examples\<close>

text \<open>A small network: a sequential block of two leaves, and a leaf.\<close>

definition example_net :: module where
  "example_net =
     Module 0 ''Net''
       [(''features'', Module 1 ''Sequential''
                         [(''0'', Module 2 ''Conv2d'' []), (''1'', Module 3 ''ReLU'' [])]),
        (''fc'', Module 4 ''Linear'' [])]"

text \<open>A grayscale image of two pixels.\<close>

definition example_gray :: image where
  "example_gray = \<lparr>mode = ''L'', im_size = (2, 1), pixels = [[[255], [7]]]\<rparr>"

text \<open>A parser with one, two or no entries, by the string parsed.\<close>

definition example_parse :: "string \<Rightarrow> error + (string \<times> string) list" where
  "example_parse s =
     (if s = ''one'' then Inr [(''key1'', ''entry1'')]
      else if s = ''two'' then Inr [(''key1'', ''entry1''), (''key2'', ''entry2'')]
      else Inr [])"

text \<open>Two metadata rows, and environments without and with a cached table of neural scores.\<close>

definition example_meta :: "meta_row list" where
  "example_meta =
     [\<lparr>meta_model = ''alexnet'', top1 = Fin 0.57, behav_r = Fin 0.37,
       meta_link = ''link1'', meta_bibtex = ''bib1''\<rparr>,
      \<lparr>meta_model = ''resnet-18'', top1 = Fin 0.69, behav_r = NaN,
       meta_link = ''link2'', meta_bibtex = ''bib2''\<rparr>]"

definition example_env :: "unit env" where
  "example_env = \<lparr>model_meta = example_meta, neural_csv = None, score_physiology = (\<lambda>m. Inr ())\<rparr>"

definition example_cached :: "unit env" where
  "example_cached = example_env\<lparr>neural_csv := Some [(''alexnet'', ())]\<rparr>"

definition example_cached_cornet :: "unit env" where
  "example_cached_cornet = example_env\<lparr>neural_csv := Some [(''alexnet'', ()), (''cornet'', ())]\<rparr>"

definition no_report :: "unit row list \<Rightarrow> error option" where
  "no_report data = None"

text \<open>
  Two images as preprocessed arrays, of different shapes, and an inference pass of
  \<open>example_net\<close> that invokes every module, each invocation completing after those of
  the module's children, with outputs that lead with the batch dimension.
\<close>

definition example_image :: ndarray where
  "example_image = \<lparr>shape = [3, 1, 1], elems = [0.1, 0.2, 0.3]\<rparr>"


definition example_forward :: "ndarray \<Rightarrow> error + (nat \<times> ndarray) list" where
  "example_forward batch =
     Inr [(2, \<lparr>shape = take 1 (shape batch) @ [8, 1, 1], elems = []\<rparr>),
          (3, \<lparr>shape = take 1 (shape batch) @ [8, 1, 1], elems = []\<rparr>),
          (1, \<lparr>shape = take 1 (shape batch) @ [8, 1, 1], elems = []\<rparr>),
          (4, \<lparr>shape = take 1 (shape batch) @ [2], elems = []\<rparr>),
          (0, \<lparr>shape = take 1 (shape batch) @ [2], elems = []\<rparr>)]"

text \<open>
  A sorting routine for the indices: insertion sort by the value at the index, one of
  the orders \<^verbatim>\<open>np.argsort\<close> may return, and the only one for distinct values.
\<close>

definition argsort_insertion :: "real list \<Rightarrow> nat list" where
  "argsort_insertion x = sort_key (\<lambda>i. x ! i) [0..<length x]"

section \<open>Layer resolution\<close>

lemma walk_parts_unresolved:
  "descend m ps = Some m1 \<Longrightarrow> map_of (modules m1) part = None \<Longrightarrow>
   walk_parts m layer_name (ps @ part # rest) =
     Inl (AssertionError (no_submodule_message layer_name part))"
  by (induction ps arbitrary: m) (auto split: option.splits)

lemma walk_parts_descend:
  "walk_parts m layer_name ps = Inr m' \<longleftrightarrow> descend m ps = Some m'"
  by (induction ps arbitrary: m) (auto split: option.splits)

lemma register_hooks_unresolved:
  "\<forall>name \<in> set before. \<exists>layer. walk_pytorch_module net name = Inr layer \<Longrightarrow>
   walk_pytorch_module net layer_name = Inl e \<Longrightarrow>
   register_hooks net (before @ layer_name # after) hooks0 = Inl e"
  by (induction before arbitrary: hooks0) auto

text \<open>
  C5. When the path of a layer name has a segment that names no child of the module
  reached by the segments before it, \<open>walk_pytorch_module\<close> fails with the assertion
  error whose message holds the whole layer name and that segment, and returns no module.
  \<open>get_activations\<close> fails with the same error when that name is the first requested
  name that does not resolve.
\<close>

theorem walk_pytorch_module_unresolved:
  assumes "split_sep (CHR ''.'') layer_name = ps @ part # rest"
    and "descend net ps = Some m1"
    and "map_of (modules m1) part = None"
  shows "walk_pytorch_module net layer_name =
           Inl (AssertionError (''No submodule found for layer '' @ layer_name @ '', at part '' @ part))
         \<and> (\<forall>m'. walk_pytorch_module net layer_name \<noteq> Inr m')
         \<and> (torch_stack images = Inr batch
              \<and> (\<forall>name \<in> set before. \<exists>layer. walk_pytorch_module net name = Inr layer) \<longrightarrow>
             get_activations forward net images (before @ layer_name # after) =
               Inl (AssertionError (''No submodule found for layer '' @ layer_name @ '', at part '' @ part)))"
proof -
  let ?e = "AssertionError (''No submodule found for layer '' @ layer_name @ '', at part '' @ part)"
  have w: "walk_pytorch_module net layer_name = Inl ?e"
    using walk_parts_unresolved [OF assms(2,3), of layer_name rest] assms(1)
    by (simp add: walk_pytorch_module_def no_submodule_message_def)
  have "get_activations forward net images (before @ layer_name # after) = Inl ?e"
    if "torch_stack images = Inr batch"
      and "\<forall>name \<in> set before. \<exists>layer. walk_pytorch_module net name = Inr layer"
    using register_hooks_unresolved [OF that(2) w, of after "\<lambda>_. []"] that(1)
    by (simp add: get_activations_def)
  then show ?thesis using w by simp
qed

theorem walk_pytorch_module_unresolved_witness:
  "walk_pytorch_module example_net ''features.x.y'' =
     Inl (AssertionError ''No submodule found for layer features.x.y, at part x'')
   \<and> get_activations example_forward example_net [example_image] [''fc'', ''features.x.y'', ''features''] =
     Inl (AssertionError ''No submodule found for layer features.x.y, at part x'')"
proof -
  have h1: "split_sep (CHR ''.'') ''features.x.y'' = [''features''] @ ''x'' # [''y'']"
    by simp
  have h2: "descend example_net [''features'']
              = Some (Module 1 ''Sequential'' [(''0'', Module 2 ''Conv2d'' []), (''1'', Module 3 ''ReLU'' [])])"
    by (simp add: example_net_def)
  have h3: "map_of (modules (Module 1 ''Sequential'' [(''0'', Module 2 ''Conv2d'' []), (''1'', Module 3 ''ReLU'' [])])) ''x'' = None"
    by simp
  have h4: "torch_stack [example_image] = Inr \<lparr>shape = [1, 3, 1, 1], elems = [0.1, 0.2, 0.3]\<rparr>"
    by (simp add: example_image_def)
  have h5: "\<forall>name \<in> set [''fc'']. \<exists>layer. walk_pytorch_module example_net name = Inr layer"
    by (simp add: walk_pytorch_module_def example_net_def)
  show ?thesis
    using walk_pytorch_module_unresolved [OF h1 h2 h3, of "[example_image]" _ "[''fc'']" example_forward "[''features'']"]
      h4 h5
    by simp
qed

section \<open>Layer enumeration\<close>

lemma dot_join_Cons:
  "dot_join ((p @ CHR ''.'' # n) # path) = p @ CHR ''.'' # dot_join (n # path)"
  by (cases path) simp_all

lemma layers_impl_leaf_paths:
  "name_prefix \<noteq> None \<Longrightarrow>
     layers_impl m name_prefix = (map (qual_name name_prefix) (leaf_paths m), None)"
  "layers_loop ms name_prefix = (map (qual_name name_prefix) (leaf_paths_children ms), None)"
proof (induction m name_prefix and ms name_prefix rule: layers_impl_layers_loop.induct)
  case (1 i c ms name_prefix)
  then show ?case
    by (auto simp: qual_name_def SUBMODULE_SEPARATOR_def)
next
  case (2 name_prefix)
  then show ?case by simp
next
  case (3 submodule_name submodule rest name_prefix)
  then show ?case
    by (cases name_prefix)
       (simp_all add: qual_name_def SUBMODULE_SEPARATOR_def dot_join_Cons split_def comp_def)
qed

lemma leaf_paths_leaves:
  "\<forall>pl \<in> set (leaf_paths m). modules (snd pl) = []"
  "\<forall>pl \<in> set (leaf_paths_children ms). modules (snd pl) = []"
  by (induction m and ms rule: leaf_paths_leaf_paths_children.induct) auto

lemma leaf_paths_children_iff:
  "(path, l) \<in> set (leaf_paths_children ms) \<longleftrightarrow>
     (\<exists>n sub path'. (n, sub) \<in> set ms \<and> path = n # path' \<and> (path', l) \<in> set (leaf_paths sub))"
  by (induction ms) (auto, blast+)

lemma leaf_paths_descend:
  "wf_module m \<Longrightarrow>
     (path, l) \<in> set (leaf_paths m) \<longleftrightarrow> descend m path = Some l \<and> modules l = []"
proof (induction path arbitrary: m)
  case Nil
  obtain i c ms where m: "m = Module i c ms" by (cases m)
  show ?case by (cases "ms = []") (auto simp: m leaf_paths_children_iff)
next
  case (Cons n path')
  obtain i c ms where m: "m = Module i c ms" by (cases m)
  show ?case
  proof (cases "ms = []")
    case True
    then show ?thesis by (simp add: m)
  next
    case False
    have d: "distinct (map fst ms)" and w: "\<And>x. x \<in> set ms \<Longrightarrow> wf_module (snd x)"
      using Cons.prems by (auto simp: m)
    have "(n # path', l) \<in> set (leaf_paths m) \<longleftrightarrow>
            (\<exists>sub. (n, sub) \<in> set ms \<and> (path', l) \<in> set (leaf_paths sub))"
      using False by (simp add: m leaf_paths_children_iff)
    also have "\<dots> \<longleftrightarrow> (\<exists>sub. map_of ms n = Some sub \<and> descend sub path' = Some l \<and> modules l = [])"
      using Cons.IH w d by (metis map_of_eq_Some_iff snd_conv)
    also have "\<dots> \<longleftrightarrow> descend m (n # path') = Some l \<and> modules l = []"
      by (auto simp: m split: option.splits)
    finally show ?thesis .
  qed
qed

lemma layers_root:
  assumes "modules net \<noteq> []"
  shows "layers net = (map leaf_name (leaf_paths net), None)"
proof -
  obtain i c ms where m: "net = Module i c ms" by (cases net)
  with assms have "ms \<noteq> []" by simp
  then show ?thesis
    using layers_impl_leaf_paths(2) [of ms None]
    by (simp add: layers_def m qual_name_def leaf_name_def)
qed

text \<open>
  C6. For a model whose root has at least one submodule, \<open>layers\<close> ends without an
  exception and yields, in depth-first order, the leaves of the submodule tree, each
  under the name made of its dot-joined path from the root, a dot and its class name.
  Every module yielded is childless. The leaves listed are exactly the childless modules
  that a path of child names reaches from the root.
\<close>

theorem layers_yields_leaves:
  assumes "modules net \<noteq> []"
  shows "layers net = (map leaf_name (leaf_paths net), None)
    \<and> (\<forall>nl \<in> set (fst (layers net)). modules (snd nl) = [])
    \<and> (wf_module net \<longrightarrow>
         set (leaf_paths net) = {(path, leaf). descend net path = Some leaf \<and> modules leaf = []})"
proof -
  have eq: "layers net = (map leaf_name (leaf_paths net), None)"
    using assms by (rule layers_root)
  moreover have "\<forall>nl \<in> set (map leaf_name (leaf_paths net)). modules (snd nl) = []"
    using leaf_paths_leaves(1) [of net] by (simp add: leaf_name_def)
  moreover have "set (leaf_paths net) = {(path, leaf). descend net path = Some leaf \<and> modules leaf = []}"
    if "wf_module net"
    using leaf_paths_descend [OF that] by auto
  ultimately show ?thesis by simp
qed

theorem layers_yields_leaves_witness:
  "layers example_net =
     ([(''features.0.Conv2d'', Module 2 ''Conv2d'' []),
       (''features.1.ReLU'', Module 3 ''ReLU'' []),
       (''fc.Linear'', Module 4 ''Linear'' [])], None)
   \<and> wf_module example_net"
  using layers_yields_leaves [of example_net]
  by (simp add: example_net_def leaf_name_def)

text \<open>
  C10. On a model whose root has no submodules, \<open>layers\<close> yields nothing and raises the
  type error of adding a string to \<open>None\<close>; the traversal ends without an exception
  exactly for the models whose root has a submodule.
\<close>

theorem layers_root_leaf_raises:
  "(modules net = [] \<longrightarrow> layers net = ([], Some TypeError))
   \<and> (snd (layers net) = None \<longleftrightarrow> modules net \<noteq> [])"
proof (cases "modules net = []")
  case True
  then show ?thesis by (cases net) (simp add: layers_def)
next
  case False
  then show ?thesis using layers_root [of net] by simp
qed

theorem layers_root_leaf_raises_witness:
  "layers (Module 0 ''Linear'' []) = ([], Some TypeError)"
  using layers_root_leaf_raises [of "Module 0 ''Linear'' []"]
  by simp

section \<open>Loading images\<close>

lemma overlay_self: "overlay d d = d"
  by (simp add: overlay_def)

lemma map_overlay_self: "map (\<lambda>(d, s). overlay d s) (zip xs xs) = xs"
  by (induction xs) (simp_all add: overlay_self)

lemma paste_self: "paste convert img img = img"
  by (simp add: paste_def map_overlay_self)

lemma load_image_grayscale:
  "files p = Some img \<Longrightarrow> upper (mode img) = ''L'' \<Longrightarrow>
     load_image convert files p = Inr (image_new ''RGB'' (im_size img))"
  by (simp add: load_image_def paste_self)

lemma load_image_other:
  "files p = Some img \<Longrightarrow> upper (mode img) \<noteq> ''L'' \<Longrightarrow> load_image convert files p = Inr img"
  by (simp add: load_image_def copy_def)

text \<open>
  C2, at a grayscale image of two pixels with the gray values 255 and 7: \<open>load_image\<close>
  returns a black three-channel image of the same size, where the conversion to three
  channels keeps the gray value of each pixel in every band.
\<close>

theorem load_image_grayscale_black:
  "load_image convert [''gray.png'' \<mapsto> example_gray] ''gray.png''
     = Inr \<lparr>mode = ''RGB'', im_size = (2, 1), pixels = [[[0, 0, 0], [0, 0, 0]]]\<rparr>
   \<and> gray_to_rgb example_gray
     = \<lparr>mode = ''RGB'', im_size = (2, 1), pixels = [[[255, 255, 255], [7, 7, 7]]]\<rparr>"
  by (simp add: load_image_def example_gray_def upper_def image_new_def mode_bands_def
        paste_def overlay_def gray_to_rgb_def numeral_3_eq_3 numeral_2_eq_2)


section \<open>Ranks\<close>

lemma finite_values_append: "finite_values (xs @ ys) = finite_values xs @ finite_values ys"
  by (induction xs rule: finite_values.induct) simp_all

lemma finite_values_set: "a \<in> set (finite_values col) \<longleftrightarrow> Fin a \<in> set col"
  by (induction col rule: finite_values.induct) auto

lemma rank_desc_nth:
  "i < length col \<Longrightarrow> col ! i = Fin a \<Longrightarrow> rank_desc col ! i = Fin (average_rank col a)"
  by (simp add: rank_desc_def)

lemma count_greater_mono:
  fixes a b :: real
  assumes "b < a"
  shows "length (filter (\<lambda>v. a < v) vs) + length (filter (\<lambda>v. v = a) vs)
           \<le> length (filter (\<lambda>v. b < v) vs)"
  using assms by (induction vs) auto

lemma count_eq_pos: "a \<in> set vs \<Longrightarrow> 0 < length (filter (\<lambda>v. v = a) vs)"
  by (induction vs) auto

lemma average_rank_antimono:
  assumes "Fin a \<in> set col" and "b < a"
  shows "average_rank col a < average_rank col b"
proof -
  let ?vs = "finite_values col"
  have 1: "length (filter (\<lambda>v. a < v) ?vs) + length (filter (\<lambda>v. v = a) ?vs)
             \<le> length (filter (\<lambda>v. b < v) ?vs)"
    using assms(2) by (rule count_greater_mono)
  have 2: "0 < length (filter (\<lambda>v. v = a) ?vs)"
    by (rule count_eq_pos) (simp add: finite_values_set assms(1))
  have "real (length (filter (\<lambda>v. a < v) ?vs)) + real (length (filter (\<lambda>v. v = a) ?vs))
          \<le> real (length (filter (\<lambda>v. b < v) ?vs))"
    using 1 by linarith
  moreover have "1 \<le> real (length (filter (\<lambda>v. v = a) ?vs))"
    using 2 by linarith
  ultimately show ?thesis
    unfolding average_rank_def by (simp add: field_simps)
qed

lemma average_rank_top:
  assumes "\<forall>b. Fin b \<in> set pre \<union> set post \<longrightarrow> b < a"
  shows "average_rank (pre @ Fin a # post) a = 1"
proof -
  have lt: "b < a" if "b \<in> set (finite_values pre) \<or> b \<in> set (finite_values post)" for b
    using assms that by (auto simp: finite_values_set)
  have "filter (\<lambda>b. a < b) (finite_values pre) = []" "filter (\<lambda>b. a < b) (finite_values post) = []"
    "filter (\<lambda>b. b = a) (finite_values pre) = []" "filter (\<lambda>b. b = a) (finite_values post) = []"
    using lt by (force simp: filter_empty_conv)+
  then show ?thesis
    by (simp add: average_rank_def finite_values_append)
qed

lemma rank_assign_rank: "map rank (assign_rank data) = rank_desc (map global data)"
proof -
  have "length (rank_desc (map global data)) = length data"
    by (simp add: rank_desc_def)
  then have "map snd (zip data (rank_desc (map global data))) = rank_desc (map global data)"
    by simp
  moreover have "map rank (assign_rank data) = map snd (zip data (rank_desc (map global data)))"
    by (simp add: assign_rank_def split_def)
  ultimately show ?thesis by simp
qed

lemma count_finite_values:
  "length (filter P (finite_values col)) = length (filter (\<lambda>v. \<exists>b. v = Fin b \<and> P b) col)"
  by (induction col rule: finite_values.induct) simp_all

lemma sum_positions:
  "(\<Sum>p = g + 1..g + t. real p) = real t * real g + real t * (real t + 1) / 2"
proof (induction t)
  case 0
  then show ?case by simp
next
  case (Suc t)
  have "(\<Sum>p = g + 1..g + Suc t. real p) = (\<Sum>p = g + 1..g + t. real p) + real (g + Suc t)"
    by simp
  then show ?case using Suc by (simp add: field_simps)
qed

lemma average_rank_positions:
  assumes "Fin c \<in> set col"
  shows "\<exists>g t. g = length (filter (\<lambda>v. \<exists>b. v = Fin b \<and> c < b) col)
           \<and> t = length (filter (\<lambda>v. v = Fin c) col) \<and> 0 < t
           \<and> average_rank col c = (\<Sum>p = g + 1..g + t. real p) / real t"
proof -
  let ?g = "length (filter (\<lambda>v. \<exists>b. v = Fin b \<and> c < b) col)"
  let ?t = "length (filter (\<lambda>v. v = Fin c) col)"
  have g: "length (filter (\<lambda>b. c < b) (finite_values col)) = ?g"
    by (rule count_finite_values)
  have "length (filter (\<lambda>b. b = c) (finite_values col)) = length (filter (\<lambda>v. \<exists>b. v = Fin b \<and> b = c) col)"
    by (rule count_finite_values)
  moreover have "(\<lambda>v. \<exists>b. v = Fin b \<and> b = c) = (\<lambda>v. v = Fin c)" by auto
  ultimately have t: "length (filter (\<lambda>b. b = c) (finite_values col)) = ?t" by simp
  have pos: "0 < ?t" using assms by (induction col) auto
  then have "real ?t \<noteq> 0" by simp
  then have "(\<Sum>p = ?g + 1..?g + ?t. real p) / real ?t = real ?g + (real ?t + 1) / 2"
    unfolding sum_positions by (simp add: field_simps)
  then have "average_rank col c = (\<Sum>p = ?g + 1..?g + ?t. real p) / real ?t"
    by (simp add: average_rank_def g t)
  then show ?thesis using pos by blast
qed

text \<open>
  C7, amended. The rank column is the descending average rank of the global scores, one
  rank per score. The scores 0.9, 0.5, 0.7 get the ranks 1, 3, 2; a score above every
  other score gets rank 1; of two scores the larger has the smaller rank. A \<open>NaN\<close>
  score gets no rank but \<open>NaN\<close>. A score that occurs \<open>t\<close> times, with \<open>g\<close> scores
  above it, gets the average of the positions \<open>g + 1\<close> to \<open>g + t\<close>.
\<close>

theorem rank_descending:
  "map rank (assign_rank data) = rank_desc (map global data)
   \<and> length (rank_desc col) = length col
   \<and> rank_desc [Fin 0.9, Fin 0.5, Fin 0.7] = [Fin 1, Fin 3, Fin 2]
   \<and> ((\<forall>b. Fin b \<in> set pre \<union> set post \<longrightarrow> b < hi) \<longrightarrow>
        rank_desc (pre @ Fin hi # post) ! length pre = Fin 1)
   \<and> (i < length col \<and> j < length col \<and> col ! i = Fin a \<and> col ! j = Fin b \<and> b < a \<longrightarrow>
        (\<exists>ra rb. rank_desc col ! i = Fin ra \<and> rank_desc col ! j = Fin rb \<and> ra < rb))
   \<and> (n < length col \<and> col ! n = NaN \<longrightarrow> rank_desc col ! n = NaN)
   \<and> (k < length col \<and> col ! k = Fin c \<longrightarrow>
        (\<exists>g t. g = length (filter (\<lambda>v. \<exists>b. v = Fin b \<and> c < b) col)
           \<and> t = length (filter (\<lambda>v. v = Fin c) col) \<and> 0 < t
           \<and> rank_desc col ! k = Fin ((\<Sum>p = g + 1..g + t. real p) / real t)))"
proof -
  have len: "length (rank_desc col) = length col"
    by (simp add: rank_desc_def)
  have ex: "rank_desc [Fin 0.9, Fin 0.5, Fin 0.7] = [Fin 1, Fin 3, Fin 2]"
    by (simp add: rank_desc_def average_rank_def)
  have top: "rank_desc (pre @ Fin hi # post) ! length pre = Fin 1"
    if "\<forall>b. Fin b \<in> set pre \<union> set post \<longrightarrow> b < hi"
    using average_rank_top [OF that] rank_desc_nth [of "length pre" "pre @ Fin hi # post" hi]
    by simp
  have ord: "\<exists>ra rb. rank_desc col ! i = Fin ra \<and> rank_desc col ! j = Fin rb \<and> ra < rb"
    if "i < length col" "j < length col" "col ! i = Fin a" "col ! j = Fin b" "b < a"
  proof -
    have "Fin a \<in> set col" using that(1,3) by (metis nth_mem)
    then have "average_rank col a < average_rank col b"
      using that(5) by (rule average_rank_antimono)
    then show ?thesis
      using rank_desc_nth [OF that(1,3)] rank_desc_nth [OF that(2,4)] by simp
  qed
  have nan: "rank_desc col ! n = NaN" if "n < length col" "col ! n = NaN"
    using that by (simp add: rank_desc_def)
  have tie: "\<exists>g t. g = length (filter (\<lambda>v. \<exists>b. v = Fin b \<and> c < b) col)
           \<and> t = length (filter (\<lambda>v. v = Fin c) col) \<and> 0 < t
           \<and> rank_desc col ! k = Fin ((\<Sum>p = g + 1..g + t. real p) / real t)"
    if "k < length col" "col ! k = Fin c"
  proof -
    have "Fin c \<in> set col" using that by (metis nth_mem)
    from average_rank_positions [OF this] show ?thesis
      using rank_desc_nth [OF that] by simp
  qed
  show ?thesis using rank_assign_rank len ex top ord nan tie by blast
qed

theorem rank_descending_witness:
  "rank_desc ([] @ Fin 0.9 # [Fin 0.5, Fin 0.7]) ! length ([] :: pyfloat list) = Fin 1
   \<and> rank_desc [Fin 0.9, Fin 0.9, Fin 0.5, NaN] = [Fin 1.5, Fin 1.5, Fin 3, NaN]
   \<and> (\<exists>ra rb. rank_desc [Fin 0.9, Fin 0.9, Fin 0.5, NaN] ! 0 = Fin ra
               \<and> rank_desc [Fin 0.9, Fin 0.9, Fin 0.5, NaN] ! 2 = Fin rb \<and> ra < rb)
   \<and> rank_desc [Fin 0.9, Fin 0.9, Fin 0.5, NaN] ! 3 = NaN
   \<and> rank_desc [Fin 0.9, Fin 0.9, Fin 0.5, NaN] ! 1 = Fin ((\<Sum>p = 0 + 1..0 + 2. real p) / real 2)"
proof -
  have r: "rank_desc [Fin 0.9, Fin 0.9, Fin 0.5, NaN] = [Fin 1.5, Fin 1.5, Fin 3, NaN]"
    by (simp add: rank_desc_def average_rank_def)
  have g: "length (filter (\<lambda>v. \<exists>b. v = Fin b \<and> (0.9 :: real) < b) [Fin 0.9, Fin 0.9, Fin 0.5, NaN]) = 0"
    by simp
  have t: "length (filter (\<lambda>v. v = Fin 0.9) [Fin 0.9, Fin 0.9, Fin 0.5, NaN]) = 2"
    by simp
  show ?thesis
    using r g t
      rank_descending [where pre = "[]" and post = "[Fin 0.5, Fin 0.7]" and hi = "0.9"
                           and i = 0 and j = 2 and col = "[Fin 0.9, Fin 0.9, Fin 0.5, NaN]"
                           and a = "0.9" and b = "0.5" and n = 3 and k = 1 and c = "0.9"
                           and data = "[] :: unit scored list"]
    by simp
qed

theorem rank_tie_counterexample:
  "rank_desc [Fin 0.9, Fin 0.9, Fin 0.5] = [Fin 1.5, Fin 1.5, Fin 3]"
  by (simp add: rank_desc_def average_rank_def)

section \<open>The behavioral column\<close>

lemma i2n_values_no_cornet:
  "''cornet'' \<notin> set ms \<Longrightarrow> i2n_values behavior ms = map (behavior_or_nan behavior) ms"
proof -
  assume "''cornet'' \<notin> set ms"
  then have "filter (\<lambda>m. m \<noteq> ''cornet'') ms = ms"
    by (simp add: filter_id_conv) blast
  then show ?thesis by (simp add: i2n_values_def)
qed

lemma i2n_values_cornet:
  "''cornet'' \<in> set ms \<Longrightarrow> length (i2n_values behavior ms) < length ms"
  by (simp add: i2n_values_def length_filter_less)

lemma assign_i2n_cornet:
  "''cornet'' \<in> fst ` set table \<Longrightarrow> assign_i2n behavior table = Inl ValueError"
  using i2n_values_cornet [of "map fst table" behavior] by (simp add: assign_i2n_def Let_def)

lemma assign_i2n_no_cornet:
  "''cornet'' \<notin> fst ` set table \<Longrightarrow>
     assign_i2n behavior table = Inr (zip table (map (behavior_or_nan behavior) (map fst table)))"
  using i2n_values_no_cornet [of "map fst table" behavior] by (simp add: assign_i2n_def Let_def)

lemma assign_i2n_Inr:
  assumes "assign_i2n behavior table = Inr data"
  shows "data = zip table (map (behavior_or_nan behavior) (map fst table))"
proof (cases "''cornet'' \<in> fst ` set table")
  case True
  then show ?thesis using assms assign_i2n_cornet [of table behavior] by simp
next
  case False
  then show ?thesis using assms assign_i2n_no_cornet [of table behavior] by simp
qed

lemma score_models_length: "score_models score ms = Inr vs \<Longrightarrow> length vs = length ms"
  by (induction ms arbitrary: vs) (auto split: sum.splits)

lemma parse_neural_data_fresh:
  assumes "neural_csv env = None" and "fst (parse_neural_data env models) = Inr table"
  shows "map fst table = models"
proof -
  obtain scores where s: "score_models (score_physiology env) models = Inr scores"
    and t: "table = zip models scores"
    using assms by (auto simp: parse_neural_data_def Let_def split: sum.splits)
  from score_models_length [OF s] show ?thesis by (simp add: t)
qed

lemma parse_neural_data_cached:
  "neural_csv env = Some cached \<Longrightarrow> fst (parse_neural_data env models) = Inr cached"
  by (simp add: parse_neural_data_def)

lemma prepare_data_cornet:
  assumes "fst (parse_neural_data env models) = Inr table" and "''cornet'' \<in> fst ` set table"
  shows "fst (prepare_data report env models) = Inl ValueError"
proof -
  obtain env' where "parse_neural_data env models = (Inr table, env')"
    using assms(1) by (cases "parse_neural_data env models") simp
  then show ?thesis
    using assign_i2n_cornet [OF assms(2)] by (simp add: prepare_data_def)
qed

text \<open>
  C9, amended. The \<open>i2n\<close> values are built from the model column of the table of
  neural scores: the passed model list when no cached table exists, the cached table's
  column otherwise. When that column contains \<open>cornet\<close> the assignment of the column
  fails with a value error, and so does \<open>prepare_data\<close>; when it does not, the column
  has one value per row, \<open>NaN\<close> for a model without behavioral score.
\<close>

theorem i2n_column_skips_cornet:
  "(neural_csv env = None \<and> fst (parse_neural_data env models) = Inr table \<longrightarrow> map fst table = models)
   \<and> (neural_csv env = Some cached \<longrightarrow> fst (parse_neural_data env models) = Inr cached)
   \<and> (''cornet'' \<in> fst ` set table \<longrightarrow> assign_i2n behavior table = Inl ValueError)
   \<and> (''cornet'' \<in> fst ` set table \<and> fst (parse_neural_data env models) = Inr table \<longrightarrow>
        fst (prepare_data report env models) = Inl ValueError)
   \<and> (''cornet'' \<notin> fst ` set table \<longrightarrow>
        assign_i2n behavior table =
          Inr (zip table (map (behavior_or_nan behavior) (map fst table))))"
  using parse_neural_data_fresh [of env models table] parse_neural_data_cached [of env cached models]
    assign_i2n_cornet [of table behavior] assign_i2n_no_cornet [of table behavior]
    prepare_data_cornet [of env models table report]
  by blast

theorem i2n_column_skips_cornet_witness:
  "fst (parse_neural_data example_env [''alexnet'', ''cornet'']) = Inr [(''alexnet'', ()), (''cornet'', ())]
   \<and> fst (prepare_data no_report example_env [''alexnet'', ''cornet'']) = Inl ValueError
   \<and> fst (parse_neural_data example_cached [''resnet-18'']) = Inr [(''alexnet'', ())]
   \<and> assign_i2n (model_behavior example_meta) [(''alexnet'', ()), (''vgg-16'', ())]
       = Inr [((''alexnet'', ()), Fin 0.37), ((''vgg-16'', ()), NaN)]"
proof -
  have t: "fst (parse_neural_data example_env [''alexnet'', ''cornet''])
             = Inr [(''alexnet'', ()), (''cornet'', ())]"
    by (simp add: parse_neural_data_def example_env_def Let_def)
  have c: "neural_csv example_cached = Some [(''alexnet'', ())]"
    by (simp add: example_cached_def)
  have n: "neural_csv example_env = None"
    by (simp add: example_env_def)
  show ?thesis
    using t c n
      i2n_column_skips_cornet [of example_env "[''alexnet'', ''cornet'']"
         "[(''alexnet'', ()), (''cornet'', ())]" "[(''alexnet'', ())]" "model_behavior example_meta" no_report]
      i2n_column_skips_cornet [of example_cached "[''resnet-18'']"
         "[(''alexnet'', ()), (''vgg-16'', ())]" "[(''alexnet'', ())]" "model_behavior example_meta" no_report]
    by (simp add: behavior_or_nan_def model_behavior_def dict_of_def example_meta_def)
qed

theorem i2n_column_cached_table_counterexample:
  "fst (prepare_data no_report example_cached [''cornet'', ''alexnet''])
     = Inr [\<lparr>model = ''alexnet'', neural = (), i2n = Fin 0.37, performance = Fin 57.67,
             global = Fin 0.37, rank = Fin 1, link = ''link1'', bibtex = ''bib1''\<rparr>]
   \<and> fst (prepare_data no_report example_cached_cornet [''alexnet'']) = Inl ValueError"
  by (simp add: prepare_data_def parse_neural_data_def example_cached_def example_cached_cornet_def
        example_env_def example_meta_def assign_i2n_def i2n_values_def behavior_or_nan_def
        model_behavior_def model_performance_def dict_of_def np_mean_axis1_def mean_row_def
        assign_rank_def rank_desc_def average_rank_def merge_meta_def no_report_def Let_def)

section \<open>The global score\<close>

lemma first_i2n_zip:
  "m \<in> fst ` set table \<Longrightarrow> first_i2n (zip table (map f (map fst table))) m = Inr (f m)"
  by (induction table) (force simp del: map_map)+

lemma global_scores_zip:
  "set ms \<subseteq> fst ` set table \<Longrightarrow>
     global_scores (zip table (map f (map fst table))) ms = Inr (map (\<lambda>m. [f m]) ms)"
  by (induction ms) (simp_all add: first_i2n_zip del: map_map)

lemma mean_row_single: "mean_row [v] = v"
  by (cases v) (simp_all add: mean_row_def)

lemma np_mean_axis1_single:
  "np_mean_axis1 (map (\<lambda>m. [f m]) ms) = Inr glob \<Longrightarrow> glob = map f ms"
  by (auto simp: np_mean_axis1_def mean_row_single comp_def split: if_splits)

lemma zip_same_values:
  assumes "x \<in> set (zip (zip table vs) (zip perf vs))"
  shows "snd (fst x) = snd (snd x)"
proof -
  obtain i where "x = (zip table vs ! i, zip perf vs ! i)" "i < length (zip table vs)" "i < length (zip perf vs)"
    using assms by (auto simp: set_zip)
  then show ?thesis by simp
qed

lemma assign_rank_keeps:
  "r \<in> set (assign_rank data) \<Longrightarrow> \<exists>r0 \<in> set data. i2n r = i2n r0 \<and> global r = global r0"
  by (auto simp: assign_rank_def dest: set_zip_leftD)

lemma merge_meta_keeps:
  "r \<in> set (merge_meta data meta) \<Longrightarrow> \<exists>r0 \<in> set data. i2n r = i2n r0 \<and> global r = global r0"
  by (auto simp: merge_meta_def)

text \<open>
  C3. In every row that \<open>prepare_data\<close> returns, the \<open>global\<close> score is the value of
  the row's \<open>i2n\<close> column.
\<close>

theorem prepare_data_global_is_i2n:
  assumes "fst (prepare_data report env models) = Inr rows"
  shows "\<forall>r \<in> set rows. global r = i2n r"
proof -
  obtain table env' where p: "parse_neural_data env models = (Inr table, env')"
    using assms by (auto simp: prepare_data_def split: prod.splits sum.splits)
  let ?beh = "behavior_or_nan (model_behavior (model_meta env'))"
  obtain data where a: "assign_i2n (model_behavior (model_meta env')) table = Inr data"
    using assms p by (auto simp: prepare_data_def split: sum.splits)
  have data: "data = zip table (map ?beh (map fst table))"
    using a by (rule assign_i2n_Inr)
  obtain perf where pf: "performance_values (model_performance (model_meta env')) (map fst table) = Inr perf"
    using assms p a by (auto simp: prepare_data_def split: sum.splits)
  have gs: "global_scores data (map fst table) = Inr (map (\<lambda>m. [?beh m]) (map fst table))"
    unfolding data by (rule global_scores_zip) simp
  obtain glob where g: "np_mean_axis1 (map (\<lambda>m. [?beh m]) (map fst table)) = Inr glob"
    using assms p a pf gs by (auto simp: prepare_data_def split: sum.splits)
  have glob: "glob = map ?beh (map fst table)"
    using g by (rule np_mean_axis1_single)
  define scored where
    "scored = map (\<lambda>(((m, n), v), p, g). \<lparr>model = m, neural = n, i2n = v, performance = p, global = g\<rparr>)
                  (zip data (zip perf glob))"
  have rows: "rows = merge_meta (assign_rank (filter (\<lambda>r. model r \<in> set models) scored)) (model_meta env')"
    using assms p a pf gs g
    by (auto simp: prepare_data_def scored_def Let_def split: option.splits)
  have s: "global r = i2n r" if "r \<in> set scored" for r
  proof -
    let ?mk = "\<lambda>(((m, n), v), p, g). \<lparr>model = m, neural = n, i2n = v, performance = p, global = g\<rparr>"
    have "r \<in> ?mk ` set (zip data (zip perf glob))"
      using that by (simp add: scored_def)
    then obtain x where x: "x \<in> set (zip data (zip perf glob))" and r: "r = ?mk x"
      by (rule imageE)
    have "snd (fst x) = snd (snd x)"
      using x unfolding data glob by (rule zip_same_values)
    then show ?thesis by (simp add: r split_def)
  qed
  show ?thesis
  proof
    fix r assume "r \<in> set rows"
    then obtain r1 where r1: "r1 \<in> set (assign_rank (filter (\<lambda>r. model r \<in> set models) scored))"
      and e1: "i2n r = i2n r1" "global r = global r1"
      unfolding rows by (blast dest: merge_meta_keeps)
    then obtain r0 where r0: "r0 \<in> set (filter (\<lambda>r. model r \<in> set models) scored)"
      and e0: "i2n r1 = i2n r0" "global r1 = global r0"
      by (blast dest: assign_rank_keeps)
    have "global r0 = i2n r0" using r0 s by simp
    then show "global r = i2n r" using e0 e1 by simp
  qed
qed

theorem prepare_data_global_is_i2n_witness:
  "fst (prepare_data no_report example_env [''alexnet'', ''resnet-18''])
     = Inr [\<lparr>model = ''alexnet'', neural = (), i2n = Fin 0.37, performance = Fin 57.67,
             global = Fin 0.37, rank = Fin 1, link = ''link1'', bibtex = ''bib1''\<rparr>,
            \<lparr>model = ''resnet-18'', neural = (), i2n = NaN, performance = Fin 69,
             global = NaN, rank = NaN, link = ''link2'', bibtex = ''bib2''\<rparr>]
   \<and> map global [\<lparr>model = ''alexnet'', neural = (), i2n = Fin 0.37, performance = Fin 57.67,
             global = Fin 0.37, rank = Fin 1, link = ''link1'', bibtex = ''bib1''\<rparr>,
            \<lparr>model = ''resnet-18'', neural = (), i2n = NaN, performance = Fin 69,
             global = NaN, rank = NaN, link = ''link2'', bibtex = ''bib2''\<rparr>] = [Fin 0.37, NaN]"
proof -
  have h: "fst (prepare_data no_report example_env [''alexnet'', ''resnet-18''])
     = Inr [\<lparr>model = ''alexnet'', neural = (), i2n = Fin 0.37, performance = Fin 57.67,
             global = Fin 0.37, rank = Fin 1, link = ''link1'', bibtex = ''bib1''\<rparr>,
            \<lparr>model = ''resnet-18'', neural = (), i2n = NaN, performance = Fin 69,
             global = NaN, rank = NaN, link = ''link2'', bibtex = ''bib2''\<rparr>]"
    by (simp add: prepare_data_def parse_neural_data_def
        example_env_def example_meta_def assign_i2n_def i2n_values_def behavior_or_nan_def
        model_behavior_def model_performance_def dict_of_def np_mean_axis1_def mean_row_def
        assign_rank_def rank_desc_def average_rank_def merge_meta_def no_report_def Let_def)
  show ?thesis using h prepare_data_global_is_i2n [OF h] by simp
qed

section \<open>Captured activations\<close>






















section \<open>Bibliography entries\<close>

lemma getitem0_not_assertion: "getitem0 vs \<noteq> Inl (AssertionError msg)"
  by (cases vs rule: getitem0.cases) simp_all

text \<open>
  C8. When the string parses, \<open>parse_bib\<close> fails with the assertion error exactly when
  the number of entries is not one, whatever \<^verbatim>\<open>values()\<close> returns. With exactly
  one entry it returns that entry where \<^verbatim>\<open>values()\<close> is a list, and raises a type
  error where \<^verbatim>\<open>values()\<close> is a view.
\<close>

theorem parse_bib_asserts_single_entry:
  assumes "parse_string bibtex_str = Inr entries"
  shows "(parse_bib parse_string values_of bibtex_str = Inl (AssertionError []) \<longleftrightarrow> length entries \<noteq> 1)
     \<and> (\<forall>k e. entries = [(k, e)] \<longrightarrow>
           parse_bib parse_string values_list bibtex_str = Inr e
           \<and> parse_bib parse_string values_view bibtex_str = Inl TypeError)"
  using assms getitem0_not_assertion [of "values_of entries" "[]"]
  by (auto simp: parse_bib_def values_list_def values_view_def)

theorem parse_bib_asserts_single_entry_witness:
  "parse_bib example_parse values_view ''one'' = Inl TypeError
   \<and> parse_bib example_parse values_list ''one'' = Inr ''entry1''
   \<and> parse_bib example_parse values_view ''two'' = Inl (AssertionError [])
   \<and> parse_bib example_parse values_list '''' = Inl (AssertionError [])"
proof -
  have h1: "example_parse ''one'' = Inr [(''key1'', ''entry1'')]"
    by (simp add: example_parse_def)
  have h2: "example_parse ''two'' = Inr [(''key1'', ''entry1''), (''key2'', ''entry2'')]"
    by (simp add: example_parse_def)
  have h3: "example_parse '''' = Inr []"
    by (simp add: example_parse_def)
  show ?thesis
    using parse_bib_asserts_single_entry
            [where parse_string = example_parse and bibtex_str = "''one''" and values_of = values_view, OF h1]
          parse_bib_asserts_single_entry
            [where parse_string = example_parse and bibtex_str = "''two''" and values_of = values_view, OF h2]
          parse_bib_asserts_single_entry
            [where parse_string = example_parse and bibtex_str = "[]" and values_of = values_list, OF h3]
    by simp
qed

section \<open>The convex trend\<close>

lemma convex_loop_new_x:
  "x \<noteq> cx \<Longrightarrow> convex_loop cx cy ((x, y) # rest) = y # convex_loop x y rest"
  by simp

lemma convex_loop_same_x:
  "convex_loop cx cy ((cx, y) # rest) = max cy y # convex_loop cx (max cy y) rest"
  by (simp add: max_def)

lemma convex_loop_ascending:
  "sorted_wrt (<) (map fst ps) \<Longrightarrow> \<forall>p \<in> set ps. cx < fst p \<Longrightarrow> convex_loop cx cy ps = map snd ps"
proof (induction ps arbitrary: cx cy)
  case Nil
  then show ?case by simp
next
  case (Cons p ps)
  obtain x y where p: "p = (x, y)" by (cases p)
  have "cx < x" using Cons.prems(2) by (simp add: p)
  moreover have "convex_loop x y ps = map snd ps"
    using Cons.prems(1) by (intro Cons.IH) (auto simp: p)
  ultimately show ?case by (simp add: p)
qed

lemma convex_loop_distinct:
  assumes "sorted_wrt (<) (map fst ps)" and "\<forall>p \<in> set ps. - 99999 < snd p"
  shows "convex_loop 0 (- 99999) ps = map snd ps"
proof (cases ps)
  case Nil
  then show ?thesis by simp
next
  case (Cons p rest)
  obtain x y where p: "p = (x, y)" by (cases p)
  have rest: "convex_loop x y rest = map snd rest"
    using assms(1) by (intro convex_loop_ascending) (auto simp: Cons p)
  have y: "- 99999 < y" using assms(2) by (simp add: Cons p)
  show ?thesis
  proof (cases "x = 0")
    case True
    then show ?thesis using rest y by (simp add: Cons p)
  next
    case False
    then show ?thesis using rest by (simp add: Cons p)
  qed
qed

lemma filter_same_key:
  "distinct (map f zs) \<Longrightarrow> k \<in> set zs \<Longrightarrow> filter (\<lambda>z. f k = f z) zs = [k]"
proof (induction zs)
  case Nil
  then show ?case by simp
next
  case (Cons z zs)
  show ?case
  proof (cases "k = z")
    case True
    have "filter (\<lambda>u. f z = f u) zs = []"
      using Cons.prems(1) by (auto simp: filter_empty_conv)
    then show ?thesis using True by simp
  next
    case False
    then have "k \<in> set zs" using Cons.prems(2) by simp
    then have "f k \<in> set (map f zs)" by simp
    moreover have "f z \<notin> set (map f zs)" using Cons.prems(1) by simp
    ultimately have "f k \<noteq> f z" by metis
    then show ?thesis using Cons \<open>k \<in> set zs\<close> by simp
  qed
qed

lemma sorted_distinct_keys_unique:
  assumes "mset ps = mset qs" and "sorted (map f ps)" and "distinct (map f qs)"
  shows "sort_key f qs = ps"
proof (rule properties_for_sort_key [OF assms(1) _ assms(2)])
  fix k assume k: "k \<in> set ps"
  have "mset (map f ps) = mset (map f qs)" using assms(1) by simp
  then have d: "distinct (map f ps)" using assms(3) by (metis mset_eq_imp_distinct_iff)
  have "k \<in> set qs" using k assms(1) by (metis mset_eq_setD)
  then show "filter (\<lambda>x. f k = f x) ps = filter (\<lambda>x. f k = f x) qs"
    using filter_same_key [OF d k] filter_same_key [OF assms(3)] by simp
qed

lemma points_of_indices:
  assumes "length x = length y" and "mset indices = mset [0..<length x]"
  shows "mset (zip (map (\<lambda>i. x ! i) indices) (map (\<lambda>i. y ! i) indices)) = mset (zip x y)"
proof -
  have "zip (map (\<lambda>i. x ! i) indices) (map (\<lambda>i. y ! i) indices) = map (\<lambda>i. (x ! i, y ! i)) indices"
    by (induction indices) simp_all
  moreover have "map (\<lambda>i. (x ! i, y ! i)) [0..<length x] = zip x y"
    using assms(1) by (intro nth_equalityI) simp_all
  moreover have "mset (map (\<lambda>i. (x ! i, y ! i)) indices) = mset (map (\<lambda>i. (x ! i, y ! i)) [0..<length x])"
    using assms(2) by (simp del: mset_upt)
  ultimately show ?thesis by simp
qed

lemma indices_in_range:
  "mset indices = mset [0..<n] \<Longrightarrow> list_all (\<lambda>i. i < n) indices"
  by (metis atLeastLessThan_iff list_all_iff mset_eq_setD set_upt)

lemma argsort_insertion_sorts:
  "mset (argsort_insertion x) = mset [0..<length x]"
  "sorted (map (\<lambda>i. x ! i) (argsort_insertion x))"
  by (simp_all add: argsort_insertion_def del: mset_upt)

text \<open>
  C1, amended. The points are scanned in ascending \<open>x\<close>-order: the list scanned is a
  rearrangement of the points that is sorted by \<open>x\<close>. At a point whose \<open>x\<close> differs
  from the current one the policy takes the \<open>y\<close> of that point; at a point with the
  current \<open>x\<close> it keeps the larger of the held value and the point's \<open>y\<close>. For
  distinct \<open>x\<close> and values above the start value -99999 the fitted sequence is therefore
  the \<open>y\<close> sequence itself, taken in ascending \<open>x\<close>-order.
\<close>

theorem convex_fit_resets_at_new_x:
  assumes "length x = length y"
    and "mset (argsort x) = mset [0..<length x]"
    and "sorted (map (\<lambda>i. x ! i) (argsort x))"
  shows "(\<exists>ps. convex_fit argsort x y = Inr (convex_loop 0 (- 99999) ps)
              \<and> mset ps = mset (zip x y) \<and> sorted (map fst ps))
   \<and> (px \<noteq> cx \<longrightarrow> convex_loop cx cy ((px, py) # rest) = py # convex_loop px py rest)
   \<and> convex_loop cx cy ((cx, py) # rest) = max cy py # convex_loop cx (max cy py) rest
   \<and> (distinct x \<and> (\<forall>v \<in> set y. - 99999 < v) \<longrightarrow>
        convex_fit argsort x y = Inr (map snd (sort_key fst (zip x y))))"
proof -
  let ?ps = "zip (map (\<lambda>i. x ! i) (argsort x)) (map (\<lambda>i. y ! i) (argsort x))"
  have fit: "convex_fit argsort x y = Inr (convex_loop 0 (- 99999) ?ps)"
    using assms(1) indices_in_range [OF assms(2)] by (simp add: convex_fit_def Let_def)
  have m: "mset ?ps = mset (zip x y)"
    using assms(1,2) by (rule points_of_indices)
  have s: "sorted (map fst ?ps)"
    using assms(3) by simp
  have d: "convex_fit argsort x y = Inr (map snd (sort_key fst (zip x y)))"
    if dx: "distinct x" and low: "\<forall>v \<in> set y. - 99999 < v"
  proof -
    have "distinct (map fst (zip x y))" using dx assms(1) by simp
    then have eq: "sort_key fst (zip x y) = ?ps"
      using m s by (intro sorted_distinct_keys_unique)
    have "distinct (map fst ?ps)"
      using m \<open>distinct (map fst (zip x y))\<close>
      by (metis mset_eq_imp_distinct_iff mset_map)
    then have "sorted_wrt (<) (map fst ?ps)"
      using s by (simp add: strict_sorted_iff)
    moreover have "\<forall>p \<in> set ?ps. - 99999 < snd p"
    proof
      fix p assume "p \<in> set ?ps"
      then have "p \<in> set (zip x y)" using m by (metis mset_eq_setD)
      then have "snd p \<in> set y" by (metis prod.collapse set_zip_rightD)
      then show "- 99999 < snd p" using low by simp
    qed
    ultimately have "convex_loop 0 (- 99999) ?ps = map snd ?ps"
      by (rule convex_loop_distinct)
    then show ?thesis using fit eq by simp
  qed
  show ?thesis
    using fit m s d convex_loop_new_x convex_loop_same_x by blast
qed


theorem convex_fit_resets_at_new_x_witness:
  "convex_fit argsort_insertion [3, 1, 4, 2] [0.3, 0.2, 0.6, 0.5] = Inr [0.2, 0.5, 0.3, 0.6]
   \<and> convex_fit argsort_insertion [1, 2, 3, 4] [0.2, 0.5, 0.3, 0.6] = Inr [0.2, 0.5, 0.3, 0.6]
   \<and> convex_loop 0 (- 99999) [(1, 0.5), (1, 0.3), (1, 0.6), (2, 0.1)] = [0.5, 0.5, 0.6, 0.1]"
proof -
  have l1: "length [3, 1, 4, 2 :: real] = length [0.3, 0.2, 0.6, 0.5 :: real]" by simp
  have l2: "length [1, 2, 3, 4 :: real] = length [0.2, 0.5, 0.3, 0.6 :: real]" by simp
  show ?thesis
    using convex_fit_resets_at_new_x
            [where argsort = argsort_insertion and px = 1 and cx = 0 and cy = "- 99999" and py = "0.5"
               and rest = "[(1, 0.3), (1, 0.6), (2, 0.1)]",
             OF l1 argsort_insertion_sorts]
          convex_fit_resets_at_new_x
            [where argsort = argsort_insertion and px = 1 and cx = 0 and cy = "- 99999" and py = "0.5"
               and rest = "[(1, 0.3), (1, 0.6), (2, 0.1)]",
             OF l2 argsort_insertion_sorts]
    by simp
qed

theorem convex_fit_running_maximum_counterexample:
  "convex_fit argsort_insertion [1, 2, 3, 4] [0.2, 0.5, 0.3, 0.6] \<noteq> Inr [0.2, 0.5, 0.5, 0.6]"
  by (simp add: convex_fit_def argsort_insertion_def upt_rec [of 0] upt_rec [of 1] upt_rec [of 2] upt_rec [of 3] upt_rec [of 4])

end
